theory Spec2Isabelle
  imports Complex_Main "HOL-Library.Sublist" "HOL-Library.Multiset"
begin

section \<open>The admin console pages, as functions\<close>

text \<open>
  The pages under \<^verbatim>\<open>web/src/app/admin\<close> are React components: each render is a function of
  the data the SWR hooks hold, and each event handler is a function of the values its closure
  captured at that render and of the responses the backend gives. Handlers are modelled by
  the sequence of effects they perform, in program order.
\<close>

subsection \<open>Source metadata (\<^verbatim>\<open>components/source.tsx\<close>)\<close>

datatype icon = GlobeIcon | SlackIcon | GoogleDriveIcon | GithubIcon

record sourceMetadata =
  icon :: icon
  displayName :: string
  adminPageLink :: string

datatype js_error = Error string | TypeError

text \<open>
  \<^verbatim>\<open>ValidSources\<close> is a union of string literals declared in \<^verbatim>\<open>lib/types\<close>; at run time the
  argument is a string, and the \<^verbatim>\<open>switch\<close> compares it with \<^verbatim>\<open>===\<close>.
\<close>

definition getSourceMetadata :: "string \<Rightarrow> js_error + sourceMetadata" where
  "getSourceMetadata sourceType =
     (if sourceType = ''web'' then
        Inr \<lparr>icon = GlobeIcon, displayName = ''Web'',
             adminPageLink = ''/admin/connectors/web''\<rparr>
      else if sourceType = ''slack'' then
        Inr \<lparr>icon = SlackIcon, displayName = ''Slack'',
             adminPageLink = ''/admin/connectors/slack''\<rparr>
      else if sourceType = ''google_drive'' then
        Inr \<lparr>icon = GoogleDriveIcon, displayName = ''Google Drive'',
             adminPageLink = ''/admin/connectors/google-drive''\<rparr>
      else if sourceType = ''github'' then
        Inr \<lparr>icon = GithubIcon, displayName = ''Github PRs'',
             adminPageLink = ''/admin/connectors/github''\<rparr>
      else Inl (Error ''Invalid source type''))"

text \<open>The element an icon component returns: the component and the \<^verbatim>\<open>size\<close> it was given.\<close>

record iconElement =
  component :: icon
  icon_size :: string

definition getSourceIcon :: "string \<Rightarrow> string \<Rightarrow> js_error + iconElement" where
  "getSourceIcon sourceType iconSize =
     (case getSourceMetadata sourceType of
        Inl e \<Rightarrow> Inl e
      | Inr m \<Rightarrow> Inr \<lparr>component = icon m, icon_size = iconSize\<rparr>)"

definition getSourceDisplayName :: "string \<Rightarrow> js_error + string" where
  "getSourceDisplayName sourceType =
     (case getSourceMetadata sourceType of
        Inl e \<Rightarrow> Inl e
      | Inr m \<Rightarrow> Inr (displayName m))"

text \<open>The \<^verbatim>\<open>internalName\<close>s of the filter list of \<^verbatim>\<open>SourceSelector\<close>, in its order.\<close>

definition sources :: "string list" where
  "sources = [''google_drive'', ''slack'', ''confluence'', ''github'', ''web'']"

definition handled_sources :: "string list" where
  "handled_sources = [''web'', ''slack'', ''google_drive'', ''github'']"


subsection \<open>Values that cross the network\<close>

text \<open>
  Identifiers are JavaScript numbers holding database keys: integers. A template literal
  prints an integer of magnitude below 10^21 in decimal, as done here; the keys are taken
  to be in that range.
\<close>

definition digit :: "nat \<Rightarrow> char" where
  "digit d = ''0123456789'' ! d"

function string_of_nat :: "nat \<Rightarrow> string" where
  "string_of_nat n =
     (if n < 10 then [digit n] else string_of_nat (n div 10) @ [digit (n mod 10)])"
  by pat_completeness auto
termination
  by (relation "measure (\<lambda>n. n)") auto

declare string_of_nat.simps [simp del]

definition string_of_int :: "int \<Rightarrow> string" where
  "string_of_int i =
     (if i < 0 then CHR ''-'' # string_of_nat (nat (- i)) else string_of_nat (nat i))"

text \<open>
  A \<^verbatim>\<open>credential_json\<close> is parsed JSON. A property read on it gives \<^verbatim>\<open>undefined\<close> (here
  \<open>None\<close>) for a missing key. JSON numbers are taken to be integers here: the pages only
  test them for truthiness.
\<close>

datatype json = JNull | JBool bool | JNum int | JStr string
  | JArr "json list" | JObj "(string \<times> json) list"

fun truthy :: "json \<Rightarrow> bool" where
  "truthy JNull = False"
| "truthy (JBool b) = b"
| "truthy (JNum n) = (n \<noteq> 0)"
| "truthy (JStr s) = (s \<noteq> [])"
| "truthy (JArr xs) = True"
| "truthy (JObj kvs) = True"

definition js_truthy :: "json option \<Rightarrow> bool" where
  "js_truthy v = (case v of None \<Rightarrow> False | Some j \<Rightarrow> truthy j)"

record credential =
  cred_id :: int
  credential_json :: "(string \<rightharpoonup> json) option"
  public_doc :: bool

record connector =
  connector_id :: int
  name :: string
  source :: string
  credential_ids :: "int list"

text \<open>Of a \<^verbatim>\<open>ConnectorIndexingStatus\<close> the pages read the connector only.\<close>

record connectorIndexingStatus =
  connector :: connector

text \<open>\<^verbatim>\<open>credential.credential_json?.key\<close>\<close>

definition optional_field :: "credential \<Rightarrow> string \<Rightarrow> json option" where
  "optional_field c k = (case credential_json c of None \<Rightarrow> None | Some m \<Rightarrow> m k)"

text \<open>\<^verbatim>\<open>xs[0]\<close>: \<^verbatim>\<open>undefined\<close> on an empty array.\<close>

definition first :: "'a list \<Rightarrow> 'a option" where
  "first xs = (case xs of [] \<Rightarrow> None | x # _ \<Rightarrow> Some x)"

text \<open>A response of \<^verbatim>\<open>fetch\<close>: \<^verbatim>\<open>ok\<close> is true for a status in the range 200 to 299.\<close>

record response =
  status :: nat
  body :: string

definition ok :: "response \<Rightarrow> bool" where
  "ok r = (200 \<le> status r \<and> status r \<le> 299)"

subsection \<open>Effects of the event handlers\<close>

datatype popup_type = PSuccess | PError

record popupSpec =
  message :: string
  ptype :: popup_type

text \<open>
  \<^verbatim>\<open>deleteCredential\<close>, \<^verbatim>\<open>linkCredential\<close> (\<^verbatim>\<open>lib/credential\<close>), \<^verbatim>\<open>deleteConnector\<close>
  (\<^verbatim>\<open>lib/connector\<close>) and \<^verbatim>\<open>deleteSlackBotConfig\<close> (\<^verbatim>\<open>bot/lib\<close>) are imported by the pages;
  a call to one of them is recorded with its arguments. \<^verbatim>\<open>Fetch\<close> is a direct call of
  \<^verbatim>\<open>fetch\<close> with its method and URL. \<^verbatim>\<open>Mutate\<close> and \<^verbatim>\<open>Refresh\<close> ask the cache to revalidate.
\<close>

datatype effect =
    DeleteCredential int
  | LinkCredential int int
  | DeleteConnector int
  | DeleteSlackBotConfig int
  | Fetch string string
  | Mutate string
  | Refresh
  | SetPopup popupSpec
  | SetPopupWithExpiration popupSpec
  | RouterPush string

text \<open>What a handler did, and the exception it ended with, if any.\<close>

type_synonym run = "effect list \<times> js_error option"

fun is_network :: "effect \<Rightarrow> bool" where
  "is_network (DeleteCredential _) = True"
| "is_network (LinkCredential _ _) = True"
| "is_network (DeleteConnector _) = True"
| "is_network (DeleteSlackBotConfig _) = True"
| "is_network (Fetch _ _) = True"
| "is_network _ = False"

fun is_invalidation :: "effect \<Rightarrow> bool" where
  "is_invalidation (Mutate _) = True"
| "is_invalidation Refresh = True"
| "is_invalidation _ = False"

definition network_calls :: "effect list \<Rightarrow> effect list" where
  "network_calls es = filter is_network es"

definition invalidations :: "effect list \<Rightarrow> effect list" where
  "invalidations es = filter is_invalidation es"

fun popup_of :: "effect \<Rightarrow> popupSpec option" where
  "popup_of (SetPopup p) = Some p"
| "popup_of (SetPopupWithExpiration p) = Some p"
| "popup_of _ = None"

definition popups :: "effect list \<Rightarrow> popupSpec list" where
  "popups es = List.map_filter popup_of es"

subsection \<open>What the SWR hooks hold\<close>

record 'a swr =
  data :: "'a option"
  isLoading :: bool
  error :: bool

datatype 'v page = LoadingAnimation | Failed string | Rendered 'v

subsection \<open>Selecting the credential and the connectors of a source\<close>

text \<open>
  Each page filters the whole credential collection by the truthiness of its marker field
  and takes element 0 of the result; it filters the statuses by the connector's source.
\<close>

definition has_marker :: "string \<Rightarrow> credential \<Rightarrow> bool" where
  "has_marker k c = js_truthy (optional_field c k)"

definition notionCredential :: "credential list \<Rightarrow> credential option" where
  "notionCredential credentialsData =
     first (filter (has_marker ''notion_integration_token'') credentialsData)"

definition slackCredential :: "credential list \<Rightarrow> credential option" where
  "slackCredential credentialsData =
     first (filter (has_marker ''slack_bot_token'') credentialsData)"

definition googleDriveCredential :: "credential list \<Rightarrow> credential option" where
  "googleDriveCredential credentialsData =
     first (filter (has_marker ''google_drive_tokens'') credentialsData)"

definition source_is :: "string \<Rightarrow> connectorIndexingStatus \<Rightarrow> bool" where
  "source_is s st = (source (connector st) = s)"

definition notionConnectorIndexingStatuses ::
    "connectorIndexingStatus list \<Rightarrow> connectorIndexingStatus list" where
  "notionConnectorIndexingStatuses connectorIndexingStatuses =
     filter (source_is ''notion'') connectorIndexingStatuses"

definition slackConnectorIndexingStatuses ::
    "connectorIndexingStatus list \<Rightarrow> connectorIndexingStatus list" where
  "slackConnectorIndexingStatuses connectorIndexingStatuses =
     filter (source_is ''slack'') connectorIndexingStatuses"

definition googleDriveConnectorIndexingStatuses ::
    "connectorIndexingStatus list \<Rightarrow> connectorIndexingStatus list" where
  "googleDriveConnectorIndexingStatuses connectorIndexingStatuses =
     filter (source_is ''google_drive'') connectorIndexingStatuses"

text \<open>The three selections, by source, under the name the specification gives them.\<close>

datatype sourceType = Slack | Notion | GoogleDrive

fun marker_key :: "sourceType \<Rightarrow> string" where
  "marker_key Slack = ''slack_bot_token''"
| "marker_key Notion = ''notion_integration_token''"
| "marker_key GoogleDrive = ''google_drive_tokens''"

fun selectCredentialForSource :: "credential list \<Rightarrow> sourceType \<Rightarrow> credential option" where
  "selectCredentialForSource C Slack = slackCredential C"
| "selectCredentialForSource C Notion = notionCredential C"
| "selectCredentialForSource C GoogleDrive = googleDriveCredential C"

text \<open>Whether the payload of a credential has the key at all, whatever its value.\<close>

definition contains_key :: "string \<Rightarrow> credential \<Rightarrow> bool" where
  "contains_key k c = (case credential_json c of None \<Rightarrow> False | Some m \<Rightarrow> m k \<noteq> None)"

subsection \<open>The Notion page (\<^verbatim>\<open>connectors/notion/page.tsx\<close>)\<close>

text \<open>What a render of a credential-and-connector page presents.\<close>

record view =
  existingCredential :: "credential option"
  credentialForm :: bool
  connectorsTable :: "connectorIndexingStatus list option"
  connectorForm :: bool
  step1Notice :: bool

definition guard_message :: string where
  "guard_message = ''Must delete all connectors before deleting credentials''"

text \<open>The \<^verbatim>\<open>onClick\<close> of the trash button beside the existing token.\<close>

definition notion_delete_onClick ::
    "credential \<Rightarrow> connectorIndexingStatus list \<Rightarrow> run" where
  "notion_delete_onClick cred notionStatuses =
     (if length notionStatuses > 0 then
        ([SetPopup \<lparr>message = guard_message, ptype = PError\<rparr>], None)
      else
        ([DeleteCredential (cred_id cred), Mutate ''/api/manage/credential''], None))"

text \<open>
  \<^verbatim>\<open>onCredentialLink\<close> of the connectors table, on both pages: guarded by the credential.
\<close>

definition onCredentialLink :: "credential option \<Rightarrow> int \<Rightarrow> run" where
  "onCredentialLink cred connectorId =
     (case cred of
        None \<Rightarrow> ([], None)
      | Some c \<Rightarrow>
          ([LinkCredential connectorId (cred_id c),
            Mutate ''/api/manage/admin/connector/indexing-status''], None))"

text \<open>
  \<^verbatim>\<open>onSubmit\<close> of the connector form, on both pages: it reads \<^verbatim>\<open>.id\<close> of the credential
  with no test of the credential, which throws a \<^verbatim>\<open>TypeError\<close> on \<^verbatim>\<open>undefined\<close> while the
  arguments of \<^verbatim>\<open>linkCredential\<close> are evaluated.
\<close>

definition connectorForm_onSubmit :: "credential option \<Rightarrow> bool \<Rightarrow> connector option \<Rightarrow> run" where
  "connectorForm_onSubmit cred isSuccess responseJson =
     (case (isSuccess, responseJson) of
        (True, Some r) \<Rightarrow>
          (case cred of
             None \<Rightarrow> ([], Some TypeError)
           | Some c \<Rightarrow>
               ([LinkCredential (connector_id r) (cred_id c),
                 Mutate ''/api/manage/admin/connector/indexing-status''], None))
      | _ \<Rightarrow> ([], None))"

definition notion_view ::
    "connectorIndexingStatus list \<Rightarrow> credential list \<Rightarrow> view" where
  "notion_view connectorIndexingStatuses credentialsData =
     (let sts = notionConnectorIndexingStatuses connectorIndexingStatuses;
          cred = notionCredential credentialsData
      in \<lparr>existingCredential = cred,
          credentialForm = (cred = None),
          connectorsTable = (if length sts > 0 then Some sts else None),
          connectorForm = (cred \<noteq> None \<and> length sts = 0),
          step1Notice = (cred = None)\<rparr>)"

definition notion_Main ::
    "connectorIndexingStatus list swr \<Rightarrow> credential list swr \<Rightarrow> view page" where
  "notion_Main sts creds =
     (if (data sts = None \<and> isLoading sts) \<or> (data creds = None \<and> isLoading creds)
      then LoadingAnimation
      else case (error sts, data sts) of
        (False, Some connectorIndexingStatuses) \<Rightarrow>
          (case (error creds, data creds) of
             (False, Some credentialsData) \<Rightarrow>
               Rendered (notion_view connectorIndexingStatuses credentialsData)
           | _ \<Rightarrow> Failed ''Failed to load credentials'')
      | _ \<Rightarrow> Failed ''Failed to load connectors'')"

text \<open>
  The user's actions on a rendered Notion page: \<open>None\<close> when the control is not presented.
\<close>

definition notion_click_delete ::
    "connectorIndexingStatus list \<Rightarrow> credential list \<Rightarrow> run option" where
  "notion_click_delete connectorIndexingStatuses credentialsData =
     (case existingCredential (notion_view connectorIndexingStatuses credentialsData) of
        None \<Rightarrow> None
      | Some c \<Rightarrow>
          Some (notion_delete_onClick c
                  (notionConnectorIndexingStatuses connectorIndexingStatuses)))"

definition notion_submit_connector ::
    "connectorIndexingStatus list \<Rightarrow> credential list \<Rightarrow> bool \<Rightarrow> connector option
      \<Rightarrow> run option" where
  "notion_submit_connector connectorIndexingStatuses credentialsData isSuccess responseJson =
     (if connectorForm (notion_view connectorIndexingStatuses credentialsData) then
        Some (connectorForm_onSubmit (notionCredential credentialsData) isSuccess responseJson)
      else None)"

subsection \<open>The Slack page (\<^verbatim>\<open>connectors/slack/page.tsx\<close>)\<close>

text \<open>The \<^verbatim>\<open>onClick\<close> of the trash button: no test before the call.\<close>

definition slack_delete_onClick :: "credential \<Rightarrow> run" where
  "slack_delete_onClick cred =
     ([DeleteCredential (cred_id cred), Mutate ''/api/manage/credential''], None)"

text \<open>The "Connect to a New Workspace" form is rendered outside every conditional.\<close>

definition slack_view ::
    "connectorIndexingStatus list \<Rightarrow> credential list \<Rightarrow> view" where
  "slack_view connectorIndexingStatuses credentialsData =
     (let sts = slackConnectorIndexingStatuses connectorIndexingStatuses;
          cred = slackCredential credentialsData
      in \<lparr>existingCredential = cred,
          credentialForm = (cred = None),
          connectorsTable = (if length sts > 0 then Some sts else None),
          connectorForm = True,
          step1Notice = False\<rparr>)"

definition slack_MainSection ::
    "connectorIndexingStatus list swr \<Rightarrow> credential list swr \<Rightarrow> view page" where
  "slack_MainSection sts creds =
     (if (data sts = None \<and> isLoading sts) \<or> (data creds = None \<and> isLoading creds)
      then LoadingAnimation
      else case (error sts, data sts) of
        (False, Some connectorIndexingStatuses) \<Rightarrow>
          (case (error creds, data creds) of
             (False, Some credentialsData) \<Rightarrow>
               Rendered (slack_view connectorIndexingStatuses credentialsData)
           | _ \<Rightarrow> Failed ''Failed to load credentials'')
      | _ \<Rightarrow> Failed ''Failed to load connectors'')"

definition slack_click_delete ::
    "connectorIndexingStatus list \<Rightarrow> credential list \<Rightarrow> run option" where
  "slack_click_delete connectorIndexingStatuses credentialsData =
     (case existingCredential (slack_view connectorIndexingStatuses credentialsData) of
        None \<Rightarrow> None
      | Some c \<Rightarrow> Some (slack_delete_onClick c))"

definition slack_submit_connector ::
    "connectorIndexingStatus list \<Rightarrow> credential list \<Rightarrow> bool \<Rightarrow> connector option
      \<Rightarrow> run option" where
  "slack_submit_connector connectorIndexingStatuses credentialsData isSuccess responseJson =
     (if connectorForm (slack_view connectorIndexingStatuses credentialsData) then
        Some (connectorForm_onSubmit (slackCredential credentialsData) isSuccess responseJson)
      else None)"

subsection \<open>The Google Drive page (\<^verbatim>\<open>connectors/slack/page.tsx\<close>, from line 216)\<close>

record gd_view =
  foundAppCredentials :: bool
  existingCredentialNote :: bool
  statusRow :: "connectorIndexingStatus option"
  addButton :: bool

text \<open>
  \<^verbatim>\<open>hasCredentialsIssue\<close>, as passed to the status row.
\<close>

definition hasCredentialsIssue :: "connectorIndexingStatus \<Rightarrow> bool" where
  "hasCredentialsIssue st = (length (credential_ids (connector st)) = 0)"

definition gd_view ::
    "string option \<Rightarrow> connectorIndexingStatus list \<Rightarrow> credential list \<Rightarrow> gd_view" where
  "gd_view client_id connectorIndexingStatuses credentialsData =
     (let googleDriveConnectorIndexingStatus =
            first (googleDriveConnectorIndexingStatuses connectorIndexingStatuses)
      in \<lparr>foundAppCredentials = (case client_id of None \<Rightarrow> False | Some i \<Rightarrow> i \<noteq> []),
          existingCredentialNote = (googleDriveCredential credentialsData \<noteq> None),
          statusRow = googleDriveConnectorIndexingStatus,
          addButton = (googleDriveConnectorIndexingStatus = None)\<rparr>)"

definition gd_Main ::
    "string swr \<Rightarrow> connectorIndexingStatus list swr \<Rightarrow> credential list swr
      \<Rightarrow> gd_view page" where
  "gd_Main app sts creds =
     (if isLoading creds \<or> isLoading app \<or> isLoading sts then LoadingAnimation
      else case (error creds, data creds) of
        (False, Some credentialsData) \<Rightarrow>
          (case (error sts, data sts) of
             (False, Some connectorIndexingStatuses) \<Rightarrow>
               if error app then
                 Failed ''Error loading Google Drive app credentials. Contact an administrator.''
               else Rendered (gd_view (data app) connectorIndexingStatuses credentialsData)
           | _ \<Rightarrow> Failed ''Failed to load connectors.'')
      | _ \<Rightarrow> Failed ''Failed to load credentials.'')"

text \<open>
  The upload button of \<^verbatim>\<open>AppCredentialUpload\<close>, with the \<^verbatim>\<open>setPopup\<close> that \<^verbatim>\<open>Main\<close> passes
  to it (a \<^verbatim>\<open>mutate\<close>, then \<^verbatim>\<open>setPopupWithExpiration\<close>).
\<close>

definition upload_onClick :: "response \<Rightarrow> run" where
  "upload_onClick r =
     ([Fetch ''PUT'' ''/api/admin/connector/google-drive/app-credential'',
       Mutate ''/api/admin/connector/google-drive/app-credential'',
       SetPopupWithExpiration
         (if ok r then
            \<lparr>message = ''Successfully uploaded app credentials'', ptype = PSuccess\<rparr>
          else
            \<lparr>message = ''Failed to upload app credentials - '' @ string_of_nat (status r),
             ptype = PError\<rparr>)], None)"

text \<open>
  "Authenticate with Google Drive". \<open>credentialId\<close> and \<open>auth_url\<close> are read from the
  bodies of the two responses.
\<close>

definition authenticate_onClick :: "response \<Rightarrow> int \<Rightarrow> response \<Rightarrow> string \<Rightarrow> run" where
  "authenticate_onClick credentialCreationResponse credentialId
      authorizationUrlResponse auth_url =
     (if \<not> ok credentialCreationResponse then
        ([Fetch ''POST'' ''/api/admin/credential'',
          SetPopupWithExpiration
            \<lparr>message = ''Failed to create credential - ''
                 @ string_of_nat (status credentialCreationResponse),
             ptype = PError\<rparr>], None)
      else if \<not> ok authorizationUrlResponse then
        ([Fetch ''POST'' ''/api/admin/credential'',
          Fetch ''GET'' (''/api/admin/connector/google-drive/authorize/''
                 @ string_of_int credentialId),
          SetPopupWithExpiration
            \<lparr>message = ''Failed to create credential - ''
                 @ string_of_nat (status authorizationUrlResponse),
             ptype = PError\<rparr>], None)
      else
        ([Fetch ''POST'' ''/api/admin/credential'',
          Fetch ''GET'' (''/api/admin/connector/google-drive/authorize/''
                 @ string_of_int credentialId),
          RouterPush auth_url], None))"

text \<open>"Delete Connector": the \<^verbatim>\<open>then\<close> callback does not look at the response.\<close>

definition deleteConnector_onClick :: "connectorIndexingStatus \<Rightarrow> run" where
  "deleteConnector_onClick st =
     ([DeleteConnector (connector_id (connector st)),
       SetPopupWithExpiration
         \<lparr>message = ''Successfully deleted connector!'', ptype = PSuccess\<rparr>,
       Mutate ''/api/admin/connector/indexing-status''], None)"

text \<open>
  "Add": creates the connector, then links it. The URL of the link call reads \<^verbatim>\<open>.id\<close> of
  the credential, which throws a \<^verbatim>\<open>TypeError\<close> on \<^verbatim>\<open>undefined\<close>. \<open>connectorId\<close> is read
  from the body of the first response.
\<close>

definition add_onClick :: "credential option \<Rightarrow> response \<Rightarrow> int \<Rightarrow> response \<Rightarrow> run" where
  "add_onClick cred connectorCreationResponse connectorId credentialLinkResponse =
     (if \<not> ok connectorCreationResponse then
        ([Fetch ''POST'' ''/api/admin/connector'',
          SetPopupWithExpiration
            \<lparr>message = ''Failed to create connector - ''
                 @ string_of_nat (status connectorCreationResponse),
             ptype = PError\<rparr>], None)
      else case cred of
        None \<Rightarrow> ([Fetch ''POST'' ''/api/admin/connector''], Some TypeError)
      | Some c \<Rightarrow>
          (if \<not> ok credentialLinkResponse then
             ([Fetch ''POST'' ''/api/admin/connector'',
               Fetch ''PUT'' (''/api/admin/connector/'' @ string_of_int connectorId
                      @ ''/credential/'' @ string_of_int (cred_id c)),
               SetPopupWithExpiration
                 \<lparr>message = ''Failed to link connector to credential - ''
                      @ string_of_nat (status credentialLinkResponse),
                  ptype = PError\<rparr>], None)
           else
             ([Fetch ''POST'' ''/api/admin/connector'',
               Fetch ''PUT'' (''/api/admin/connector/'' @ string_of_int connectorId
                      @ ''/credential/'' @ string_of_int (cred_id c)),
               SetPopupWithExpiration
                 \<lparr>message = ''Successfully created connector!'', ptype = PSuccess\<rparr>,
               Mutate ''/api/admin/connector/indexing-status''], None)))"

definition gd_click_add ::
    "string option \<Rightarrow> connectorIndexingStatus list \<Rightarrow> credential list
      \<Rightarrow> response \<Rightarrow> int \<Rightarrow> response \<Rightarrow> run option" where
  "gd_click_add client_id connectorIndexingStatuses credentialsData r1 connectorId r2 =
     (if addButton (gd_view client_id connectorIndexingStatuses credentialsData) then
        Some (add_onClick (googleDriveCredential credentialsData) r1 connectorId r2)
      else None)"

text \<open>
  \<^verbatim>\<open>setPopupWithExpiration\<close>: the popup state of \<^verbatim>\<open>Main\<close> and the timers it has pending,
  on a clock in milliseconds. Every timer of the component carries the same callback,
  \<^verbatim>\<open>() => setPopup(null)\<close>, so a pending timer is its due time.
\<close>

record popup_state =
  now :: nat
  popup :: "popupSpec option"
  timers :: "nat list"

definition setPopup :: "popupSpec option \<Rightarrow> popup_state \<Rightarrow> popup_state" where
  "setPopup p s = s\<lparr>popup := p\<rparr>"

definition setTimeout :: "nat \<Rightarrow> popup_state \<Rightarrow> popup_state" where
  "setTimeout delay s = s\<lparr>timers := timers s @ [now s + delay]\<rparr>"

definition setPopupWithExpiration :: "popupSpec option \<Rightarrow> popup_state \<Rightarrow> popup_state" where
  "setPopupWithExpiration popupSpec s = setTimeout 4000 (setPopup popupSpec s)"

text \<open>
  The event loop with no event but the passing of \<open>d\<close> milliseconds: the timers that are
  due run, each setting the popup to \<^verbatim>\<open>null\<close>.
\<close>

definition advance :: "nat \<Rightarrow> popup_state \<Rightarrow> popup_state" where
  "advance d s =
     (let t = now s + d in
      s\<lparr>now := t,
        popup := (if filter (\<lambda>due. due \<le> t) (timers s) = [] then popup s else None),
        timers := filter (\<lambda>due. \<not> due \<le> t) (timers s)\<rparr>)"

text \<open>
  Modelled from the spec: the \<^verbatim>\<open>setPopup\<close> that the hook \<^verbatim>\<open>usePopup\<close> of
  \<^verbatim>\<open>components/admin/connectors/Popup\<close> returns to the Notion page and to the bot page; the
  hook is imported by both and is not among the sources. The specification has every
  notice "auto-expire after a fixed interval (4000 ms in the observed behavior)", the popup
  state clearing "automatically after the fixed timeout (4000 ms) even with no further
  interaction": the popup is set, and a timer of 4000 ms is started that sets it to
  \<^verbatim>\<open>null\<close>.
\<close>

definition usePopup_setPopup :: "popupSpec option \<Rightarrow> popup_state \<Rightarrow> popup_state" where
  "usePopup_setPopup popupSpec s = setTimeout 4000 (setPopup popupSpec s)"

text \<open>
  The popup state of a page under the effects of a handler: a popup of the Google Drive
  page goes through its \<^verbatim>\<open>setPopupWithExpiration\<close>, a popup of the Notion page or of the
  bot page through the \<^verbatim>\<open>setPopup\<close> of \<^verbatim>\<open>usePopup\<close>, and no other effect touches the
  state.
\<close>

fun perform :: "effect \<Rightarrow> popup_state \<Rightarrow> popup_state" where
  "perform (SetPopupWithExpiration p) s = setPopupWithExpiration (Some p) s"
| "perform (SetPopup p) s = usePopup_setPopup (Some p) s"
| "perform _ s = s"

definition perform_all :: "effect list \<Rightarrow> popup_state \<Rightarrow> popup_state" where
  "perform_all es s = fold perform es s"

subsection \<open>The bot configuration table (\<^verbatim>\<open>bot/page.tsx\<close>)\<close>

record channelConfig =
  channel_names :: "string list"
  respond_team_member_list :: "string list option"
  answer_filters :: "string list option"
  respond_tag_only :: "bool option"

record slackBotConfig =
  config_id :: int
  channel_config :: channelConfig
  document_sets :: "string list"

definition numToDisplay :: int where
  "numToDisplay = 50"

text \<open>The comparator passed to \<^verbatim>\<open>sort\<close>.\<close>

definition compare_id :: "slackBotConfig \<Rightarrow> slackBotConfig \<Rightarrow> int" where
  "compare_id a b =
     (if config_id a < config_id b then - 1
      else if config_id a > config_id b then 1
      else 0)"

text \<open>
  \<^verbatim>\<open>Array.prototype.sort\<close> with a comparator. ECMAScript (since ES2019) requires the sort
  to be stable, which fixes its result for a consistent comparator; the model inserts each
  element, from the last to the first, before the first element it does not exceed.
\<close>

fun place :: "('a \<Rightarrow> 'a \<Rightarrow> int) \<Rightarrow> 'a \<Rightarrow> 'a list \<Rightarrow> 'a list" where
  "place cmp a [] = [a]"
| "place cmp a (b # bs) = (if cmp a b \<le> 0 then a # b # bs else b # place cmp a bs)"

fun js_sort :: "('a \<Rightarrow> 'a \<Rightarrow> int) \<Rightarrow> 'a list \<Rightarrow> 'a list" where
  "js_sort cmp [] = []"
| "js_sort cmp (a # as) = place cmp a (js_sort cmp as)"

definition sortById :: "slackBotConfig list \<Rightarrow> slackBotConfig list" where
  "sortById slackBotConfigs = js_sort compare_id slackBotConfigs"

text \<open>
  \<^verbatim>\<open>Array.prototype.slice(start, end)\<close>: a negative index counts from the end, and both
  indices are clamped to the array.
\<close>

definition js_slice :: "'a list \<Rightarrow> int \<Rightarrow> int \<Rightarrow> 'a list" where
  "js_slice xs start fin =
     (let len = int (length xs);
          k = (if start < 0 then max (len + start) 0 else min start len);
          final = (if fin < 0 then max (len + fin) 0 else min fin len)
      in take (nat (final - k)) (drop (nat k) xs))"

text \<open>The configurations of the current page; the table has one row for each.\<close>

definition page_slice :: "slackBotConfig list \<Rightarrow> int \<Rightarrow> slackBotConfig list" where
  "page_slice slackBotConfigs page =
     js_slice (sortById slackBotConfigs) ((page - 1) * numToDisplay) (page * numToDisplay)"

fun js_join :: "string \<Rightarrow> string list \<Rightarrow> string" where
  "js_join sep [] = []"
| "js_join sep [x] = x"
| "js_join sep (x # y # ys) = x @ sep @ js_join sep (y # ys)"

record row =
  row_id :: int
  channels :: string
  document_sets_cell :: string
  team_members :: string
  answer_validity_check_enabled :: bool
  question_mark_only :: bool
  respond_tag_only_cell :: bool

definition table_row :: "slackBotConfig \<Rightarrow> row" where
  "table_row c =
     (let cc = channel_config c;
          filters = (case answer_filters cc of None \<Rightarrow> [] | Some fs \<Rightarrow> fs)
      in \<lparr>row_id = config_id c,
          channels = js_join '', '' (map (\<lambda>n. CHR ''#'' # n) (channel_names cc)),
          document_sets_cell = js_join '', '' (document_sets c),
          team_members =
            js_join '', '' (case respond_team_member_list cc of None \<Rightarrow> [] | Some ms \<Rightarrow> ms),
          answer_validity_check_enabled = (''well_answered_postfilter'' \<in> set filters),
          question_mark_only = (''questionmark_prefilter'' \<in> set filters),
          respond_tag_only_cell =
            (case respond_tag_only cc of None \<Rightarrow> False | Some b \<Rightarrow> b)\<rparr>)"

definition table_data :: "slackBotConfig list \<Rightarrow> int \<Rightarrow> row list" where
  "table_data slackBotConfigs page = map table_row (page_slice slackBotConfigs page)"

text \<open>\<^verbatim>\<open>Math.ceil(slackBotConfigs.length / numToDisplay)\<close>\<close>

definition totalPages :: "slackBotConfig list \<Rightarrow> int" where
  "totalPages slackBotConfigs =
     \<lceil>real (length slackBotConfigs) / real_of_int numToDisplay\<rceil>"

text \<open>The \<^verbatim>\<open>onClick\<close> of the delete cell of a row.\<close>

definition bot_delete_onClick :: "slackBotConfig \<Rightarrow> response \<Rightarrow> run" where
  "bot_delete_onClick c r =
     ([DeleteSlackBotConfig (config_id c),
       SetPopup
         (if ok r then
            \<lparr>message = ''Slack bot config '' @ [CHR 0x22] @ string_of_int (config_id c)
                 @ [CHR 0x22] @ '' deleted'',
             ptype = PSuccess\<rparr>
          else
            \<lparr>message = ''Failed to delete Slack bot config - '' @ body r,
             ptype = PError\<rparr>),
       Refresh], None)"

subsection \<open>What the specification says, in its words\<close>

text \<open>
  The guard of the specification counts the statuses whose connector lists the credential:
  \<^verbatim>\<open>linked = statuses.filter(s => credential set of s includes credential.id).length\<close>.
\<close>

definition linked :: "credential \<Rightarrow> connectorIndexingStatus list \<Rightarrow> nat" where
  "linked c statuses =
     length (filter (\<lambda>s. cred_id c \<in> set (credential_ids (connector s))) statuses)"

subsection \<open>Example data\<close>

definition empty_token :: credential where
  "empty_token = \<lparr>cred_id = 1,
     credential_json = Some [''notion_integration_token'' \<mapsto> JStr []],
     public_doc = True\<rparr>"

definition secret_token :: credential where
  "secret_token = \<lparr>cred_id = 2,
     credential_json = Some [''notion_integration_token'' \<mapsto> JStr ''secret''],
     public_doc = True\<rparr>"

definition notion_cred_7 :: credential where
  "notion_cred_7 = \<lparr>cred_id = 7,
     credential_json = Some [''notion_integration_token'' \<mapsto> JStr ''secret''],
     public_doc = True\<rparr>"

definition slack_cred_7 :: credential where
  "slack_cred_7 = \<lparr>cred_id = 7,
     credential_json = Some [''slack_bot_token'' \<mapsto> JStr ''xoxb-x''],
     public_doc = True\<rparr>"

definition unlinked_notion_connector :: connectorIndexingStatus where
  "unlinked_notion_connector =
     \<lparr>connector = \<lparr>connector_id = 3, name = ''NotionConnector'',
        source = ''notion'', credential_ids = []\<rparr>\<rparr>"

definition linked_slack_connector :: connectorIndexingStatus where
  "linked_slack_connector =
     \<lparr>connector = \<lparr>connector_id = 3, name = ''SlackConnector-acme'',
        source = ''slack'', credential_ids = [7]\<rparr>\<rparr>"

definition new_connector :: connector where
  "new_connector = \<lparr>connector_id = 3, name = ''SlackConnector-acme'',
     source = ''slack'', credential_ids = []\<rparr>"

definition loaded :: "'a \<Rightarrow> 'a swr" where
  "loaded x = \<lparr>data = Some x, isLoading = False, error = False\<rparr>"

definition cfg :: "int \<Rightarrow> string \<Rightarrow> slackBotConfig" where
  "cfg i ch = \<lparr>config_id = i,
     channel_config = \<lparr>channel_names = [ch], respond_team_member_list = None,
        answer_filters = None, respond_tag_only = None\<rparr>,
     document_sets = []\<rparr>"

definition many_configs :: "slackBotConfig list" where
  "many_configs = map (\<lambda>i. cfg (int i) ''general'') (rev [0..<120])"

definition server_error :: response where
  "server_error = \<lparr>status = 500, body = ''Internal Server Error''\<rparr>"

definition not_found :: response where
  "not_found = \<lparr>status = 404, body = ''Not Found''\<rparr>"

definition created :: response where
  "created = \<lparr>status = 200, body = []\<rparr>"

lemmas page_defs = notion_click_delete_def notion_view_def notionCredential_def
  notionConnectorIndexingStatuses_def has_marker_def js_truthy_def optional_field_def
  first_def source_is_def notion_delete_onClick_def network_calls_def popups_def
  List.map_filter_def slack_click_delete_def slack_view_def slackCredential_def
  slackConnectorIndexingStatuses_def slack_delete_onClick_def

text \<open>\<^verbatim>\<open>message.includes(String(response.status))\<close>: the text shows the status code.\<close>

definition shows_status :: "response \<Rightarrow> popupSpec \<Rightarrow> bool" where
  "shows_status r p = sublist (string_of_nat (status r)) (message p)"

section \<open>Source metadata is defined on four source types only\<close>

text \<open>
  C10. \<^verbatim>\<open>getSourceMetadata\<close> returns a metadata record for exactly the four inputs
  "web", "slack", "google_drive" and "github"; for every other input, "notion" and
  "confluence" (which the filter list of \<^verbatim>\<open>SourceSelector\<close> offers) among them, it throws
  \<^verbatim>\<open>Error("Invalid source type")\<close>, and so do \<^verbatim>\<open>getSourceIcon\<close> and
  \<^verbatim>\<open>getSourceDisplayName\<close>.
\<close>

theorem getSourceMetadata_partial:
  "(sourceType \<in> set handled_sources \<longrightarrow>
      (\<exists>m. getSourceMetadata sourceType = Inr m
         \<and> getSourceIcon sourceType iconSize = Inr \<lparr>component = icon m, icon_size = iconSize\<rparr>
         \<and> getSourceDisplayName sourceType = Inr (displayName m)))
   \<and> (sourceType \<notin> set handled_sources \<longrightarrow>
        getSourceMetadata sourceType = Inl (Error ''Invalid source type'')
      \<and> getSourceIcon sourceType iconSize = Inl (Error ''Invalid source type'')
      \<and> getSourceDisplayName sourceType = Inl (Error ''Invalid source type''))
   \<and> getSourceMetadata ''notion'' = Inl (Error ''Invalid source type'')
   \<and> getSourceMetadata ''confluence'' = Inl (Error ''Invalid source type'')
   \<and> ''confluence'' \<in> set sources"
proof (intro conjI impI)
  assume "sourceType \<in> set handled_sources"
  then consider "sourceType = ''web''" | "sourceType = ''slack''"
    | "sourceType = ''google_drive''" | "sourceType = ''github''"
    by (auto simp: handled_sources_def)
  then show "\<exists>m. getSourceMetadata sourceType = Inr m
         \<and> getSourceIcon sourceType iconSize = Inr \<lparr>component = icon m, icon_size = iconSize\<rparr>
         \<and> getSourceDisplayName sourceType = Inr (displayName m)"
    by cases (simp_all add: getSourceMetadata_def getSourceIcon_def getSourceDisplayName_def)
next
  assume out: "sourceType \<notin> set handled_sources"
  then show m: "getSourceMetadata sourceType = Inl (Error ''Invalid source type'')"
    by (simp add: handled_sources_def getSourceMetadata_def)
  from m show "getSourceIcon sourceType iconSize = Inl (Error ''Invalid source type'')"
    by (simp add: getSourceIcon_def)
  from m show "getSourceDisplayName sourceType = Inl (Error ''Invalid source type'')"
    by (simp add: getSourceDisplayName_def)
next
  show "getSourceMetadata ''notion'' = Inl (Error ''Invalid source type'')"
    by (simp add: getSourceMetadata_def)
  show "getSourceMetadata ''confluence'' = Inl (Error ''Invalid source type'')"
    by (simp add: getSourceMetadata_def)
  show "''confluence'' \<in> set sources"
    by (simp add: sources_def)
qed

theorem getSourceMetadata_partial_witness:
  "''slack'' \<in> set handled_sources
   \<and> getSourceMetadata ''slack'' =
       Inr \<lparr>icon = SlackIcon, displayName = ''Slack'',
            adminPageLink = ''/admin/connectors/slack''\<rparr>
   \<and> getSourceIcon ''slack'' ''16'' = Inr \<lparr>component = SlackIcon, icon_size = ''16''\<rparr>
   \<and> ''confluence'' \<notin> set handled_sources
   \<and> getSourceIcon ''confluence'' ''16'' = Inl (Error ''Invalid source type'')
   \<and> getSourceDisplayName ''confluence'' = Inl (Error ''Invalid source type'')"
proof -
  have a: "''slack'' \<in> set handled_sources" by (simp add: handled_sources_def)
  have b: "''confluence'' \<notin> set handled_sources" by (simp add: handled_sources_def)
  have m: "getSourceMetadata ''slack'' =
       Inr \<lparr>icon = SlackIcon, displayName = ''Slack'',
            adminPageLink = ''/admin/connectors/slack''\<rparr>"
    by (simp add: getSourceMetadata_def)
  from getSourceMetadata_partial [of "''slack''" "''16''"] a m
  have c: "getSourceIcon ''slack'' ''16'' = Inr \<lparr>component = SlackIcon, icon_size = ''16''\<rparr>"
    by auto
  from getSourceMetadata_partial [of "''confluence''" "''16''"] b
  have d: "getSourceIcon ''confluence'' ''16'' = Inl (Error ''Invalid source type'')
      \<and> getSourceDisplayName ''confluence'' = Inl (Error ''Invalid source type'')"
    by blast
  from a b m c d show ?thesis by blast
qed


section \<open>Selecting the credential of a source\<close>

lemma first_filter_None: "first (filter P xs) = None \<longleftrightarrow> (\<forall>x \<in> set xs. \<not> P x)"
  by (induction xs) (auto simp: first_def)

lemma first_filter_Some:
  "first (filter P xs) = Some x \<Longrightarrow>
     \<exists>i < length xs. xs ! i = x \<and> P x \<and> (\<forall>j < i. \<not> P (xs ! j))"
proof (induction xs)
  case Nil
  then show ?case by (simp add: first_def)
next
  case (Cons a xs)
  show ?case
  proof (cases "P a")
    case True
    with Cons.prems have "a = x" by (simp add: first_def)
    with True show ?thesis by auto
  next
    case False
    with Cons.prems have "first (filter P xs) = Some x" by simp
    from Cons.IH [OF this] obtain i where
      i: "i < length xs" "xs ! i = x" "P x" "\<forall>j < i. \<not> P (xs ! j)" by blast
    have "\<forall>j < Suc i. \<not> P ((a # xs) ! j)"
      using False i(4) by (auto simp: less_Suc_eq_0_disj)
    with i show ?thesis by (intro exI [of _ "Suc i"]) auto
  qed
qed

lemma selectCredentialForSource_filter:
  "selectCredentialForSource C S = first (filter (has_marker (marker_key S)) C)"
  by (cases S) (simp_all add: notionCredential_def slackCredential_def googleDriveCredential_def)

text \<open>
  The test of the filter: the payload is present, has the key, and the value under the key
  is truthy. For a string that is: not empty.
\<close>

lemma has_marker_iff:
  "has_marker k c \<longleftrightarrow> (\<exists>m v. credential_json c = Some m \<and> m k = Some v \<and> truthy v)"
  by (auto simp: has_marker_def js_truthy_def optional_field_def split: option.splits)

lemma has_marker_contains_key: "has_marker k c \<Longrightarrow> contains_key k c"
  by (auto simp: has_marker_iff contains_key_def)

text \<open>
  C4, as stated, fails: the claim selects the first credential whose payload contains the
  marker key. A credential whose \<^verbatim>\<open>notion_integration_token\<close> is the empty string contains
  the key, and the page passes over it for the next one.
\<close>

theorem selectCredentialForSource_counterexample:
  "contains_key (marker_key Notion) empty_token
   \<and> selectCredentialForSource [empty_token, secret_token] Notion = Some secret_token
   \<and> cred_id secret_token \<noteq> cred_id empty_token"
  by (simp add: contains_key_def empty_token_def secret_token_def notionCredential_def
      has_marker_def js_truthy_def optional_field_def first_def)

text \<open>
  C4, amended. For every list of credentials C and every source S (Slack, Notion, Google
  Drive), \<^verbatim>\<open>selectCredentialForSource(C, S)\<close> returns the first element of C, in C's order,
  whose \<^verbatim>\<open>credential_json\<close> holds a truthy value under the marker key of S, and none when
  no element does: the result is at an index i of C, passes the test, and no element
  before i passes it.
\<close>

theorem selectCredentialForSource_first_truthy:
  "(case selectCredentialForSource C S of
      None \<Rightarrow> \<forall>c \<in> set C. \<not> has_marker (marker_key S) c
    | Some c \<Rightarrow>
        \<exists>i < length C. C ! i = c \<and> has_marker (marker_key S) c
           \<and> (\<forall>j < i. \<not> has_marker (marker_key S) (C ! j)))"
proof (cases "selectCredentialForSource C S")
  case None
  then have "\<forall>c \<in> set C. \<not> has_marker (marker_key S) c"
    by (simp add: selectCredentialForSource_filter first_filter_None)
  with None show ?thesis by simp
next
  case (Some c)
  then have "first (filter (has_marker (marker_key S)) C) = Some c"
    by (simp add: selectCredentialForSource_filter)
  from first_filter_Some [OF this] Some show ?thesis
    by simp
qed

theorem selectCredentialForSource_first_truthy_witness:
  "selectCredentialForSource [empty_token, secret_token] Notion = Some secret_token
   \<and> (\<exists>i < length [empty_token, secret_token].
         [empty_token, secret_token] ! i = secret_token
         \<and> has_marker (marker_key Notion) secret_token
         \<and> (\<forall>j < i. \<not> has_marker (marker_key Notion) ([empty_token, secret_token] ! j)))
   \<and> selectCredentialForSource [empty_token] Notion = None
   \<and> \<not> has_marker (marker_key Notion) empty_token"
proof -
  have s: "selectCredentialForSource [empty_token, secret_token] Notion = Some secret_token"
    by (simp add: empty_token_def secret_token_def notionCredential_def
      has_marker_def js_truthy_def optional_field_def first_def)
  have n: "selectCredentialForSource [empty_token] Notion = None"
    by (simp add: empty_token_def notionCredential_def
      has_marker_def js_truthy_def optional_field_def first_def)
  from selectCredentialForSource_first_truthy [of "[empty_token, secret_token]" Notion] s
  have a: "\<exists>i < length [empty_token, secret_token].
         [empty_token, secret_token] ! i = secret_token
         \<and> has_marker (marker_key Notion) secret_token
         \<and> (\<forall>j < i. \<not> has_marker (marker_key Notion) ([empty_token, secret_token] ! j))"
    by simp
  from selectCredentialForSource_first_truthy [of "[empty_token]" Notion] n
  have b: "\<not> has_marker (marker_key Notion) empty_token"
    by simp
  from s a n b show ?thesis by (intro conjI)
qed

section \<open>Deleting a credential\<close>

text \<open>
  C1, as stated, fails: a Notion connector that lists no credential does not reference
  credential 7, so the claim has one DELETE issued; the page shows the guard's popup and
  issues no call.
\<close>

theorem notion_delete_counterexample:
  "linked notion_cred_7 [unlinked_notion_connector] = 0
   \<and> notion_click_delete [unlinked_notion_connector] [notion_cred_7] =
       Some ([SetPopup \<lparr>message = guard_message, ptype = PError\<rparr>], None)
   \<and> network_calls [SetPopup \<lparr>message = guard_message, ptype = PError\<rparr>] = []"
  by (simp add: linked_def notion_cred_7_def unlinked_notion_connector_def page_defs)

text \<open>
  The Slack page has no guard: the credential that connector 3 lists is deleted.
\<close>

lemma slack_delete_unguarded:
  "linked slack_cred_7 [linked_slack_connector] = 1
   \<and> slack_click_delete [linked_slack_connector] [slack_cred_7] =
       Some ([DeleteCredential 7, Mutate ''/api/manage/credential''], None)"
  by (simp add: linked_def slack_cred_7_def linked_slack_connector_def page_defs)

text \<open>
  C1, amended. On the Notion page, for the selected credential c and every collection of
  connector indexing statuses: if at least one status is of a Notion connector, whatever
  its \<^verbatim>\<open>credential_ids\<close>, the delete handler sets the error popup "Must delete all
  connectors before deleting credentials" and issues no network call; if none is, it
  issues exactly one delete call, for c.
\<close>

theorem notion_delete_guarded:
  "notionCredential credentialsData = Some c \<longrightarrow>
     (\<exists>es. notion_click_delete sts credentialsData = Some (es, None)
        \<and> ((\<exists>s \<in> set sts. source (connector s) = ''notion'') \<longrightarrow>
              network_calls es = []
              \<and> popups es =
                  [\<lparr>message = ''Must delete all connectors before deleting credentials'',
                    ptype = PError\<rparr>])
        \<and> ((\<forall>s \<in> set sts. source (connector s) \<noteq> ''notion'') \<longrightarrow>
              network_calls es = [DeleteCredential (cred_id c)] \<and> popups es = []))"
proof
  assume c: "notionCredential credentialsData = Some c"
  let ?goal = "\<exists>es. notion_click_delete sts credentialsData = Some (es, None)
        \<and> ((\<exists>s \<in> set sts. source (connector s) = ''notion'') \<longrightarrow>
              network_calls es = []
              \<and> popups es =
                  [\<lparr>message = ''Must delete all connectors before deleting credentials'',
                    ptype = PError\<rparr>])
        \<and> ((\<forall>s \<in> set sts. source (connector s) \<noteq> ''notion'') \<longrightarrow>
              network_calls es = [DeleteCredential (cred_id c)] \<and> popups es = [])"
  show ?goal
  proof (cases "filter (source_is ''notion'') sts = []")
    case True
    then have "\<forall>s \<in> set sts. source (connector s) \<noteq> ''notion''"
      by (auto simp: filter_empty_conv source_is_def)
    with True c show ?goal
      by (simp add: notion_click_delete_def notion_view_def notionConnectorIndexingStatuses_def
          notion_delete_onClick_def network_calls_def popups_def List.map_filter_def)
  next
    case False
    then have "\<exists>s \<in> set sts. source (connector s) = ''notion''"
      by (auto simp: filter_empty_conv source_is_def)
    with False c show ?goal
      by (simp add: notion_click_delete_def notion_view_def notionConnectorIndexingStatuses_def
          notion_delete_onClick_def network_calls_def popups_def List.map_filter_def
          guard_message_def)
  qed
qed

theorem notion_delete_guarded_witness:
  "notionCredential [notion_cred_7] = Some notion_cred_7
   \<and> (\<exists>es. notion_click_delete [unlinked_notion_connector] [notion_cred_7] = Some (es, None)
         \<and> network_calls es = []
         \<and> popups es =
             [\<lparr>message = ''Must delete all connectors before deleting credentials'',
               ptype = PError\<rparr>])
   \<and> (\<exists>es. notion_click_delete [linked_slack_connector] [notion_cred_7] = Some (es, None)
         \<and> network_calls es = [DeleteCredential 7] \<and> popups es = [])"
proof -
  have c: "notionCredential [notion_cred_7] = Some notion_cred_7"
    by (simp add: notion_cred_7_def page_defs)
  have g: "\<exists>s \<in> set [unlinked_notion_connector]. source (connector s) = ''notion''"
    by (simp add: unlinked_notion_connector_def)
  have d: "\<forall>s \<in> set [linked_slack_connector]. source (connector s) \<noteq> ''notion''"
    by (simp add: linked_slack_connector_def)
  have i: "cred_id notion_cred_7 = 7"
    by (simp add: notion_cred_7_def)
  from notion_delete_guarded [of "[notion_cred_7]" notion_cred_7 "[unlinked_notion_connector]"]
    c g
  have a: "\<exists>es. notion_click_delete [unlinked_notion_connector] [notion_cred_7]
         = Some (es, None)
         \<and> network_calls es = []
         \<and> popups es =
             [\<lparr>message = ''Must delete all connectors before deleting credentials'',
               ptype = PError\<rparr>]"
    by blast
  from notion_delete_guarded [of "[notion_cred_7]" notion_cred_7 "[linked_slack_connector]"]
    c d i
  have b: "\<exists>es. notion_click_delete [linked_slack_connector] [notion_cred_7] = Some (es, None)
         \<and> network_calls es = [DeleteCredential 7] \<and> popups es = []"
    by auto
  from c a b show ?thesis by (intro conjI)
qed


section \<open>Offering the connector form, and linking\<close>

text \<open>
  The Notion page presents the connector form only under the credential, and the guarded
  \<^verbatim>\<open>onCredentialLink\<close> does nothing without one.
\<close>

lemma notion_form_gated:
  "connectorForm (notion_view sts creds) \<Longrightarrow> notionCredential creds \<noteq> None"
  by (simp add: notion_view_def Let_def)

lemma notion_submit_never_throws:
  "notion_submit_connector sts creds isSuccess responseJson = Some (es, e) \<Longrightarrow> e = None"
  by (auto simp: notion_submit_connector_def connectorForm_onSubmit_def notion_view_def Let_def
      split: if_splits option.splits bool.splits)

lemma onCredentialLink_guarded: "onCredentialLink None connectorId = ([], None)"
  by (simp add: onCredentialLink_def)

text \<open>No handler issues a link call without a credential: the unguarded ones throw first.\<close>

lemma no_link_without_credential:
  "network_calls (fst (onCredentialLink None connectorId)) = []"
  "network_calls (fst (connectorForm_onSubmit None isSuccess responseJson)) = []"
  by (simp_all add: onCredentialLink_def connectorForm_onSubmit_def network_calls_def
      split: option.splits bool.splits)

text \<open>
  C2. For every source type that requires a credential (Slack, Notion, Google Drive), the
  UI does not offer connector creation while no credential for that source exists. The
  Slack page breaks this: with both collections loaded and empty there is no Slack
  credential, and the render presents the "Connect to a New Workspace" form. The theorem
  evaluates the page there.
\<close>

theorem slack_form_ungated:
  "slackCredential [] = None
   \<and> slack_MainSection (loaded []) (loaded []) =
       Rendered \<lparr>existingCredential = None, credentialForm = True, connectorsTable = None,
                 connectorForm = True, step1Notice = False\<rparr>"
  by (simp add: slack_MainSection_def loaded_def page_defs)

text \<open>The "Add" button of the Google Drive page is presented without a credential too.\<close>

lemma gd_add_ungated:
  "googleDriveCredential [] = None
   \<and> gd_Main (loaded []) (loaded []) (loaded []) =
       Rendered \<lparr>foundAppCredentials = False, existingCredentialNote = False,
                 statusRow = None, addButton = True\<rparr>"
  by (simp add: gd_Main_def gd_view_def loaded_def googleDriveCredential_def
      googleDriveConnectorIndexingStatuses_def first_def)

lemma gd_add_without_credential:
  "gd_click_add None [] [] created 3 created =
     Some ([Fetch ''POST'' ''/api/admin/connector''], Some TypeError)"
  by (simp add: gd_click_add_def gd_view_def add_onClick_def ok_def created_def
      googleDriveCredential_def googleDriveConnectorIndexingStatuses_def first_def)

text \<open>
  C3. Every code path that calls \<^verbatim>\<open>linkCredential\<close> first checks that the selected
  credential of the source is present. The \<^verbatim>\<open>onSubmit\<close> of the Slack connector form does
  not: submitted on a page with no Slack credential, after the connector was created, it
  reads \<^verbatim>\<open>slackCredential.id\<close> and ends with a \<^verbatim>\<open>TypeError\<close>, where a caller that checks
  would return. The theorem evaluates the page there.
\<close>

theorem slack_submit_without_credential:
  "slack_submit_connector [] [] True (Some new_connector) = Some ([], Some TypeError)"
  by (simp add: slack_submit_connector_def connectorForm_onSubmit_def page_defs)


section \<open>The order and the pages of the bot configuration table\<close>

lemma place_insort: "place compare_id a bs = insort_key config_id a bs"
  by (induction bs) (auto simp: compare_id_def)

lemma sortById_sort_key: "sortById cs = sort_key config_id cs"
  by (induction cs) (simp_all add: sortById_def place_insort)

lemma length_sortById: "length (sortById cs) = length cs"
  by (simp add: sortById_sort_key)

lemma cfg_id [simp]: "config_id (cfg i ch) = i"
  by (simp add: cfg_def)

text \<open>
  C6. For every list of SlackBotConfig records, the order applied before display is by id
  ascending and stable: the result holds the same records, a record with a smaller id
  comes before one with a larger id, and the records of one id keep their order of the
  input.
\<close>

theorem sortById_stable_ascending:
  "mset (sortById cs) = mset cs
   \<and> sorted (map config_id (sortById cs))
   \<and> (\<forall>i j. i < j \<and> j < length cs \<longrightarrow>
         config_id (sortById cs ! i) \<le> config_id (sortById cs ! j))
   \<and> (\<forall>k. filter (\<lambda>c. config_id c = k) (sortById cs) = filter (\<lambda>c. config_id c = k) cs)"
proof (intro conjI allI impI)
  show "mset (sortById cs) = mset cs"
    by (simp add: sortById_sort_key)
  show s: "sorted (map config_id (sortById cs))"
    by (simp add: sortById_sort_key)
  show "filter (\<lambda>c. config_id c = k) (sortById cs) = filter (\<lambda>c. config_id c = k) cs" for k
    by (simp add: sortById_sort_key sort_key_stable)
  fix i j assume ij: "i < j \<and> j < length cs"
  from ij have "map config_id (sortById cs) ! i \<le> map config_id (sortById cs) ! j"
    by (intro sorted_nth_mono [OF s]) (simp_all add: length_sortById)
  with ij show "config_id (sortById cs ! i) \<le> config_id (sortById cs ! j)"
    by (simp add: length_sortById)
qed

theorem sortById_stable_ascending_witness:
  "sortById [cfg 2 ''a'', cfg 1 ''b'', cfg 2 ''c'', cfg 1 ''d'']
     = [cfg 1 ''b'', cfg 1 ''d'', cfg 2 ''a'', cfg 2 ''c'']
   \<and> config_id (sortById [cfg 2 ''a'', cfg 1 ''b'', cfg 2 ''c'', cfg 1 ''d''] ! 1)
       \<le> config_id (sortById [cfg 2 ''a'', cfg 1 ''b'', cfg 2 ''c'', cfg 1 ''d''] ! 2)
   \<and> filter (\<lambda>c. config_id c = 2) (sortById [cfg 2 ''a'', cfg 1 ''b'', cfg 2 ''c'', cfg 1 ''d''])
       = [cfg 2 ''a'', cfg 2 ''c'']"
proof -
  let ?cs = "[cfg 2 ''a'', cfg 1 ''b'', cfg 2 ''c'', cfg 1 ''d'']"
  have e: "sortById ?cs = [cfg 1 ''b'', cfg 1 ''d'', cfg 2 ''a'', cfg 2 ''c'']"
    by (simp add: sortById_def compare_id_def)
  have ord: "\<forall>i j. i < j \<and> j < length ?cs \<longrightarrow>
         config_id (sortById ?cs ! i) \<le> config_id (sortById ?cs ! j)"
    and stab: "\<forall>k. filter (\<lambda>c. config_id c = k) (sortById ?cs)
         = filter (\<lambda>c. config_id c = k) ?cs"
    using sortById_stable_ascending [of ?cs] by blast+
  have "(1::nat) < 2 \<and> 2 < length ?cs" by simp
  with ord have a: "config_id (sortById ?cs ! 1) \<le> config_id (sortById ?cs ! 2)"
    by blast
  from stab have "filter (\<lambda>c. config_id c = 2) (sortById ?cs)
         = filter (\<lambda>c. config_id c = 2) ?cs" by (rule spec)
  then have b: "filter (\<lambda>c. config_id c = 2) (sortById ?cs) = [cfg 2 ''a'', cfg 2 ''c'']"
    by simp
  from e a b show ?thesis by (intro conjI)
qed

lemma js_slice_window:
  assumes "0 \<le> a" "0 \<le> n"
  shows "js_slice xs a (a + n) = take (nat n) (drop (nat a) xs)"
proof (cases "a < int (length xs)")
  case True
  with assms have "js_slice xs a (a + n) =
      take (nat (min (a + n) (int (length xs)) - a)) (drop (nat a) xs)"
    by (simp add: js_slice_def Let_def min_def)
  also have "\<dots> = take (min (nat n) (length (drop (nat a) xs))) (drop (nat a) xs)"
    using True assms by (intro arg_cong2 [where f = take]) (auto simp: min_def)
  also have "\<dots> = take (nat n) (drop (nat a) xs)"
    by (simp add: min_def)
  finally show ?thesis .
next
  case False
  with assms show ?thesis
    by (simp add: js_slice_def Let_def min_def)
qed

lemma totalPages_div: "totalPages cs = (int (length cs) + 49) div 50"
proof -
  have "totalPages cs = \<lceil>real_of_int (int (length cs)) / real_of_int 50\<rceil>"
    by (simp add: totalPages_def numToDisplay_def)
  also have "\<dots> = - (- int (length cs) div 50)"
    by (rule ceiling_divide_eq_div)
  also have "\<dots> = (int (length cs) + 49) div 50"
    by linarith
  finally show ?thesis .
qed

lemma page_slice_window:
  assumes "1 \<le> p"
  shows "page_slice cs p = take 50 (drop (nat ((p - 1) * 50)) (sortById cs))"
proof -
  have "page_slice cs p = js_slice (sortById cs) ((p - 1) * 50) ((p - 1) * 50 + 50)"
    by (simp add: page_slice_def numToDisplay_def algebra_simps)
  also have "\<dots> = take (nat 50) (drop (nat ((p - 1) * 50)) (sortById cs))"
    using assms by (intro js_slice_window) simp_all
  finally show ?thesis by simp
qed

lemma take_drop_nths:
  "a + n \<le> length xs \<Longrightarrow> take n (drop a xs) = map (\<lambda>i. xs ! i) [a..<a + n]"
  by (rule nth_equalityI) (simp_all add: nth_drop)

text \<open>
  C5. For every list of bot configs and every page number p counted from 1, with page
  size 50, the slice of the table is the elements of the sorted list at the offsets
  (p-1)*50 to p*50-1 (those of them the list has), and the number of pages is the ceiling
  of length/50: the least t with length \<le> 50 t. Page 2 over 120 configs is the offsets
  50 to 99, of 3 pages.
\<close>

theorem page_slice_offsets:
  "1 \<le> p \<longrightarrow>
     page_slice cs p = take 50 (drop (nat ((p - 1) * 50)) (sortById cs))
     \<and> length (page_slice cs p) = min 50 (length cs - nat ((p - 1) * 50))
     \<and> (\<forall>i < length (page_slice cs p).
           page_slice cs p ! i = sortById cs ! (nat ((p - 1) * 50) + i))
     \<and> totalPages cs = (int (length cs) + 49) div 50
     \<and> int (length cs) \<le> totalPages cs * 50
     \<and> totalPages cs * 50 < int (length cs) + 50
     \<and> (length cs = 120 \<and> p = 2 \<longrightarrow>
           page_slice cs p = map (\<lambda>i. sortById cs ! i) [50..<100] \<and> totalPages cs = 3)"
proof (intro impI conjI allI)
  assume p: "1 \<le> p"
  note len = length_sortById [of cs]
  show w: "page_slice cs p = take 50 (drop (nat ((p - 1) * 50)) (sortById cs))"
    using p by (rule page_slice_window)
  show l: "length (page_slice cs p) = min 50 (length cs - nat ((p - 1) * 50))"
    by (simp add: w len)
  show "page_slice cs p ! i = sortById cs ! (nat ((p - 1) * 50) + i)"
    if "i < length (page_slice cs p)" for i
  proof -
    from that l have "i < 50" and "i < length cs - nat ((p - 1) * 50)"
      by simp_all
    then have i: "i < 50" "nat ((p - 1) * 50) + i < length (sortById cs)"
      unfolding len by linarith+
    then have "take 50 (drop (nat ((p - 1) * 50)) (sortById cs)) ! i
        = drop (nat ((p - 1) * 50)) (sortById cs) ! i"
      by simp
    also from i have "\<dots> = sortById cs ! (nat ((p - 1) * 50) + i)"
      by (intro nth_drop) simp
    finally show ?thesis by (simp only: w)
  qed
  show t: "totalPages cs = (int (length cs) + 49) div 50"
    by (rule totalPages_div)
  show "int (length cs) \<le> totalPages cs * 50"
    unfolding t by linarith
  show "totalPages cs * 50 < int (length cs) + 50"
    unfolding t by linarith
  assume c: "length cs = 120 \<and> p = 2"
  from c len have "50 + 50 \<le> length (sortById cs)" by simp
  then have "take 50 (drop 50 (sortById cs)) = map (\<lambda>i. sortById cs ! i) [50..<50 + 50]"
    by (rule take_drop_nths)
  also have "(50::nat) + 50 = 100" by simp
  finally have m: "take 50 (drop 50 (sortById cs)) = map (\<lambda>i. sortById cs ! i) [50..<100]" .
  from w c have "page_slice cs p = take 50 (drop 50 (sortById cs))"
    by simp
  from this m show "page_slice cs p = map (\<lambda>i. sortById cs ! i) [50..<100]"
    by (rule trans)
  from t c show "totalPages cs = 3" by simp
qed

theorem page_slice_offsets_witness:
  "(1::int) \<le> 2 \<and> length many_configs = 120
   \<and> page_slice many_configs 2 = map (\<lambda>i. sortById many_configs ! i) [50..<100]
   \<and> length (page_slice many_configs 2) = 50
   \<and> totalPages many_configs = 3"
proof -
  have a: "(1::int) \<le> 2" by simp
  have b: "length many_configs = 120" by (simp add: many_configs_def)
  from page_slice_offsets [of 2 many_configs] a b
  have "page_slice many_configs 2 = map (\<lambda>i. sortById many_configs ! i) [50..<100]
     \<and> totalPages many_configs = 3"
    by blast
  moreover from this have "length (page_slice many_configs 2) = 50"
    by simp
  ultimately show ?thesis using a b by blast
qed

text \<open>A table of three configurations: one page, and nothing on a second.\<close>

lemma small_table:
  "page_slice [cfg 2 ''a'', cfg 1 ''b'', cfg 2 ''c''] 1
     = [cfg 1 ''b'', cfg 2 ''a'', cfg 2 ''c'']
   \<and> page_slice [cfg 2 ''a'', cfg 1 ''b'', cfg 2 ''c''] 2 = []
   \<and> totalPages [cfg 2 ''a'', cfg 1 ''b'', cfg 2 ''c''] = 1"
  by (simp add: page_slice_def sortById_def compare_id_def js_slice_def numToDisplay_def
      totalPages_def)


section \<open>Failed mutations: what the user sees, and what is refetched\<close>

lemmas gd_handler_defs = upload_onClick_def authenticate_onClick_def add_onClick_def
  bot_delete_onClick_def popups_def invalidations_def List.map_filter_def

lemma shows_status_suffix:
  "shows_status r \<lparr>message = pre @ string_of_nat (status r), ptype = t\<rparr>"
  by (simp only: shows_status_def popupSpec.simps sublist_append_leftI)

text \<open>
  C7, as stated, fails: when the deletion of a bot configuration is answered with status
  500, the popup shows the body of the response and not the status code.
\<close>

theorem bot_delete_counterexample:
  "\<not> ok server_error
   \<and> popups (fst (bot_delete_onClick (cfg 5 ''general'') server_error)) =
       [\<lparr>message = ''Failed to delete Slack bot config - Internal Server Error'',
         ptype = PError\<rparr>]
   \<and> \<not> shows_status server_error
         \<lparr>message = ''Failed to delete Slack bot config - Internal Server Error'',
          ptype = PError\<rparr>"
  by (simp add: ok_def server_error_def gd_handler_defs shows_status_def
      string_of_nat.simps digit_def sublist_Cons_right)

text \<open>
  C7, amended. For every mutation call that the Google Drive page issues through
  \<^verbatim>\<open>fetch\<close> (upload of the app credentials, creation of the credential and its
  authorization URL, creation of the connector, link) and that returns a non-2xx response,
  the handler sets one error popup whose text is "Failed to X - " followed by the status
  code of that response in decimal, so the text shows the status code. The error popup of
  the bot configuration delete is "Failed to delete Slack bot config - " followed by the
  body of the response.
\<close>

theorem fetch_failure_shows_status:
  "\<not> ok r \<longrightarrow>
     popups (fst (upload_onClick r)) =
       [\<lparr>message = ''Failed to upload app credentials - '' @ string_of_nat (status r),
         ptype = PError\<rparr>]
     \<and> popups (fst (authenticate_onClick r credentialId r2 auth_url)) =
         [\<lparr>message = ''Failed to create credential - '' @ string_of_nat (status r),
           ptype = PError\<rparr>]
     \<and> (ok r1 \<longrightarrow>
          popups (fst (authenticate_onClick r1 credentialId r auth_url)) =
            [\<lparr>message = ''Failed to create credential - '' @ string_of_nat (status r),
              ptype = PError\<rparr>])
     \<and> popups (fst (add_onClick cred r connectorId r2)) =
         [\<lparr>message = ''Failed to create connector - '' @ string_of_nat (status r),
           ptype = PError\<rparr>]
     \<and> (ok r1 \<longrightarrow>
          popups (fst (add_onClick (Some c) r1 connectorId r)) =
            [\<lparr>message = ''Failed to link connector to credential - ''
                 @ string_of_nat (status r),
              ptype = PError\<rparr>])
     \<and> shows_status r \<lparr>message = pre @ string_of_nat (status r), ptype = PError\<rparr>
     \<and> popups (fst (bot_delete_onClick b r)) =
         [\<lparr>message = ''Failed to delete Slack bot config - '' @ body r, ptype = PError\<rparr>]"
proof
  assume r: "\<not> ok r"
  have u: "popups (fst (upload_onClick r)) =
       [\<lparr>message = ''Failed to upload app credentials - '' @ string_of_nat (status r),
         ptype = PError\<rparr>]"
    using r by (simp add: gd_handler_defs)
  have a1: "popups (fst (authenticate_onClick r credentialId r2 auth_url)) =
         [\<lparr>message = ''Failed to create credential - '' @ string_of_nat (status r),
           ptype = PError\<rparr>]"
    using r by (simp add: gd_handler_defs)
  have a2: "popups (fst (authenticate_onClick r1 credentialId r auth_url)) =
            [\<lparr>message = ''Failed to create credential - '' @ string_of_nat (status r),
              ptype = PError\<rparr>]" if "ok r1" for r1
    using r that by (simp add: gd_handler_defs)
  have c1: "popups (fst (add_onClick cred r connectorId r2)) =
         [\<lparr>message = ''Failed to create connector - '' @ string_of_nat (status r),
           ptype = PError\<rparr>]"
    using r by (simp add: gd_handler_defs)
  have c2: "popups (fst (add_onClick (Some c) r1 connectorId r)) =
            [\<lparr>message = ''Failed to link connector to credential - ''
                 @ string_of_nat (status r),
              ptype = PError\<rparr>]" if "ok r1" for r1
    using r that by (simp add: gd_handler_defs)
  have d: "popups (fst (bot_delete_onClick b r)) =
         [\<lparr>message = ''Failed to delete Slack bot config - '' @ body r, ptype = PError\<rparr>]"
    using r by (simp add: gd_handler_defs)
  note s = shows_status_suffix [of r pre PError]
  from u a1 a2 c1 c2 s d show "popups (fst (upload_onClick r)) =
       [\<lparr>message = ''Failed to upload app credentials - '' @ string_of_nat (status r),
         ptype = PError\<rparr>]
     \<and> popups (fst (authenticate_onClick r credentialId r2 auth_url)) =
         [\<lparr>message = ''Failed to create credential - '' @ string_of_nat (status r),
           ptype = PError\<rparr>]
     \<and> (ok r1 \<longrightarrow>
          popups (fst (authenticate_onClick r1 credentialId r auth_url)) =
            [\<lparr>message = ''Failed to create credential - '' @ string_of_nat (status r),
              ptype = PError\<rparr>])
     \<and> popups (fst (add_onClick cred r connectorId r2)) =
         [\<lparr>message = ''Failed to create connector - '' @ string_of_nat (status r),
           ptype = PError\<rparr>]
     \<and> (ok r1 \<longrightarrow>
          popups (fst (add_onClick (Some c) r1 connectorId r)) =
            [\<lparr>message = ''Failed to link connector to credential - ''
                 @ string_of_nat (status r),
              ptype = PError\<rparr>])
     \<and> shows_status r \<lparr>message = pre @ string_of_nat (status r), ptype = PError\<rparr>
     \<and> popups (fst (bot_delete_onClick b r)) =
         [\<lparr>message = ''Failed to delete Slack bot config - '' @ body r, ptype = PError\<rparr>]"
    by blast
qed

theorem fetch_failure_shows_status_witness:
  "\<not> ok not_found \<and> ok created
   \<and> popups (fst (add_onClick None not_found 3 created)) =
       [\<lparr>message = ''Failed to create connector - 404'', ptype = PError\<rparr>]
   \<and> popups (fst (add_onClick (Some slack_cred_7) created 3 not_found)) =
       [\<lparr>message = ''Failed to link connector to credential - 404'', ptype = PError\<rparr>]
   \<and> shows_status not_found
       \<lparr>message = ''Failed to create connector - 404'', ptype = PError\<rparr>"
proof -
  have a: "\<not> ok not_found" and b: "ok created"
    by (simp_all add: ok_def not_found_def created_def)
  have s: "string_of_nat (status not_found) = ''404''"
    by (simp add: not_found_def string_of_nat.simps digit_def)
  note t = fetch_failure_shows_status
    [where r = not_found and ?r1.0 = created and ?r2.0 = created and connectorId = 3
       and cred = None and c = slack_cred_7]
  from t a b s
  have c: "popups (fst (add_onClick None not_found 3 created)) =
       [\<lparr>message = ''Failed to create connector - 404'', ptype = PError\<rparr>]"
    and d: "popups (fst (add_onClick (Some slack_cred_7) created 3 not_found)) =
       [\<lparr>message = ''Failed to link connector to credential - 404'', ptype = PError\<rparr>]"
    by simp_all
  from t [where pre = "''Failed to create connector - ''"] a s
  have e: "shows_status not_found
       \<lparr>message = ''Failed to create connector - 404'', ptype = PError\<rparr>"
    by simp
  from a b c d e show ?thesis by (intro conjI)
qed

text \<open>
  C8, as stated, fails: after a deletion of a bot configuration that is answered with
  status 500, the handler calls \<^verbatim>\<open>refresh()\<close>.
\<close>

theorem bot_delete_refresh_counterexample:
  "\<not> ok server_error
   \<and> invalidations (fst (bot_delete_onClick (cfg 5 ''general'') server_error)) = [Refresh]"
  by (simp add: ok_def server_error_def gd_handler_defs)

text \<open>
  The handlers that call \<^verbatim>\<open>deleteCredential\<close>, \<^verbatim>\<open>linkCredential\<close> and \<^verbatim>\<open>deleteConnector\<close>
  do not look at the response: they invalidate whatever the outcome.
\<close>

lemma unchecked_calls_invalidate:
  "invalidations (fst (notion_delete_onClick c [])) = [Mutate ''/api/manage/credential'']"
  "invalidations (fst (slack_delete_onClick c)) = [Mutate ''/api/manage/credential'']"
  "invalidations (fst (onCredentialLink (Some c) i)) =
     [Mutate ''/api/manage/admin/connector/indexing-status'']"
  "invalidations (fst (deleteConnector_onClick st)) =
     [Mutate ''/api/admin/connector/indexing-status'']"
  by (simp_all add: invalidations_def notion_delete_onClick_def slack_delete_onClick_def
      onCredentialLink_def deleteConnector_onClick_def)

text \<open>
  C8, amended. In the "Add" handler of the Google Drive page, a non-2xx response to the
  creation of the connector or to the link ends the handler before \<^verbatim>\<open>mutate\<close>: no cache
  invalidation is signaled, and one is signaled only when both calls succeeded. Its
  "Authenticate" handler signals none. The delete handler of the bot configuration table
  calls \<^verbatim>\<open>refresh()\<close> after a failure as after a success.
\<close>

theorem add_failure_no_invalidation:
  "(\<not> ok r1 \<longrightarrow> invalidations (fst (add_onClick cred r1 connectorId r2)) = [])
   \<and> (\<not> ok r2 \<longrightarrow> invalidations (fst (add_onClick cred r1 connectorId r2)) = [])
   \<and> (ok r1 \<and> ok r2 \<longrightarrow>
        invalidations (fst (add_onClick (Some c) r1 connectorId r2)) =
          [Mutate ''/api/admin/connector/indexing-status''])
   \<and> invalidations (fst (authenticate_onClick r1 credentialId r2 auth_url)) = []
   \<and> invalidations (fst (bot_delete_onClick b r)) = [Refresh]"
  by (simp add: gd_handler_defs split: option.splits)

theorem add_failure_no_invalidation_witness:
  "\<not> ok not_found \<and> ok created
   \<and> invalidations (fst (add_onClick (Some slack_cred_7) not_found 3 created)) = []
   \<and> invalidations (fst (add_onClick (Some slack_cred_7) created 3 not_found)) = []
   \<and> invalidations (fst (add_onClick (Some slack_cred_7) created 3 created)) =
       [Mutate ''/api/admin/connector/indexing-status'']"
proof -
  have a: "\<not> ok not_found" and b: "ok created"
    by (simp_all add: ok_def not_found_def created_def)
  from add_failure_no_invalidation
    [where ?r1.0 = not_found and cred = "Some slack_cred_7" and connectorId = 3 and ?r2.0 = created] a
  have c: "invalidations (fst (add_onClick (Some slack_cred_7) not_found 3 created)) = []"
    by blast
  from add_failure_no_invalidation
    [where ?r1.0 = created and cred = "Some slack_cred_7" and connectorId = 3 and ?r2.0 = not_found] a
  have d: "invalidations (fst (add_onClick (Some slack_cred_7) created 3 not_found)) = []"
    by blast
  from add_failure_no_invalidation
    [where ?r1.0 = created and connectorId = 3 and ?r2.0 = created and c = slack_cred_7] b
  have e: "invalidations (fst (add_onClick (Some slack_cred_7) created 3 created)) =
       [Mutate ''/api/admin/connector/indexing-status'']"
    by blast
  from a b c d e show ?thesis by (intro conjI)
qed

section \<open>The popup expires\<close>

lemma timers_setPopupWithExpiration:
  "timers (setPopupWithExpiration p s) = timers s @ [now s + 4000]"
  "now (setPopupWithExpiration p s) = now s"
  "popup (setPopupWithExpiration p s) = p"
  by (simp_all add: setPopupWithExpiration_def setTimeout_def setPopup_def)

lemma timers_usePopup_setPopup:
  "timers (usePopup_setPopup p s) = timers s @ [now s + 4000]"
  "now (usePopup_setPopup p s) = now s"
  "popup (usePopup_setPopup p s) = p"
  by (simp_all add: usePopup_setPopup_def setTimeout_def setPopup_def)

lemma now_perform: "now (perform e s) = now s"
  by (cases e) (simp_all add: timers_setPopupWithExpiration timers_usePopup_setPopup)

lemma timers_perform: "set (timers s) \<subseteq> set (timers (perform e s))"
  by (cases e) (auto simp: timers_setPopupWithExpiration timers_usePopup_setPopup)

lemma timer_of_popup:
  "popup_of e \<noteq> None \<Longrightarrow> now s + 4000 \<in> set (timers (perform e s))"
  by (cases e) (simp_all add: timers_setPopupWithExpiration timers_usePopup_setPopup)

lemma now_fold_perform: "now (fold perform es s) = now s"
  by (induction es arbitrary: s) (simp_all add: now_perform)

lemma timers_fold_perform: "set (timers s) \<subseteq> set (timers (fold perform es s))"
proof (induction es arbitrary: s)
  case Nil
  show ?case by simp
next
  case (Cons e es)
  have "set (timers s) \<subseteq> set (timers (perform e s))" by (rule timers_perform)
  also have "\<dots> \<subseteq> set (timers (fold perform es (perform e s)))" by (rule Cons.IH)
  finally show ?case by simp
qed

lemma timer_pending:
  "e \<in> set es \<Longrightarrow> popup_of e \<noteq> None
     \<Longrightarrow> now s + 4000 \<in> set (timers (fold perform es s))"
proof (induction es arbitrary: s)
  case Nil
  then show ?case by simp
next
  case (Cons x es)
  show ?case
  proof (cases "x = e")
    case True
    with Cons.prems have "now s + 4000 \<in> set (timers (perform x s))"
      by (simp add: timer_of_popup)
    with timers_fold_perform [of "perform x s" es] show ?thesis by auto
  next
    case False
    with Cons.prems have "e \<in> set es" by simp
    from Cons.IH [OF this Cons.prems(2), of "perform x s"] show ?thesis
      by (simp add: now_perform)
  qed
qed

lemma popups_nonempty:
  "popups es \<noteq> [] \<Longrightarrow> \<exists>e \<in> set es. popup_of e \<noteq> None"
  by (auto simp: popups_def List.map_filter_def filter_empty_conv)

lemma advance_due: "t \<in> set (timers s) \<Longrightarrow> t \<le> now s + d \<Longrightarrow> popup (advance d s) = None"
  by (auto simp: advance_def Let_def filter_empty_conv)

text \<open>
  The popups of the Google Drive page are set with \<^verbatim>\<open>setPopupWithExpiration\<close>; the guard
  popup of the Notion page and the popups of the bot page with the \<^verbatim>\<open>setPopup\<close> of
  \<^verbatim>\<open>usePopup\<close>.
\<close>

lemma gd_popups_expire:
  "popups (fst (upload_onClick r)) \<noteq> [] \<longrightarrow>
     (\<exists>p. SetPopupWithExpiration p \<in> set (fst (upload_onClick r)))"
  "popups (fst (authenticate_onClick r1 i r2 u)) \<noteq> [] \<longrightarrow>
     (\<exists>p. SetPopupWithExpiration p \<in> set (fst (authenticate_onClick r1 i r2 u)))"
  "popups (fst (add_onClick cred r1 i r2)) \<noteq> [] \<longrightarrow>
     (\<exists>p. SetPopupWithExpiration p \<in> set (fst (add_onClick cred r1 i r2)))"
  "popups (fst (deleteConnector_onClick st)) \<noteq> [] \<longrightarrow>
     (\<exists>p. SetPopupWithExpiration p \<in> set (fst (deleteConnector_onClick st)))"
  by (auto simp: upload_onClick_def authenticate_onClick_def add_onClick_def
      deleteConnector_onClick_def popups_def List.map_filter_def split: option.splits)

lemma usePopup_popups:
  "fst (notion_delete_onClick c (st # sts)) =
     [SetPopup \<lparr>message = guard_message, ptype = PError\<rparr>]"
  "\<exists>p. fst (bot_delete_onClick b r) = [DeleteSlackBotConfig (config_id b), SetPopup p, Refresh]"
  by (simp_all add: notion_delete_onClick_def bot_delete_onClick_def)

text \<open>
  C9. For every popup set after a guard or a mutation outcome, the popup state is cleared
  with no further interaction once the fixed 4000 ms have passed. From any state of the
  component, setting the popup, through \<^verbatim>\<open>setPopupWithExpiration\<close> or through the
  \<^verbatim>\<open>setPopup\<close> of \<^verbatim>\<open>usePopup\<close>, and letting 4000 ms pass leaves the popup state
  \<^verbatim>\<open>null\<close>, and the timer that cleared it is gone; with no older timer pending, the popup
  is shown for all of the 4000 ms. So it is after the run of any handler that sets a
  popup, the guard of the Notion page and the delete of the bot page among them.
\<close>

theorem popup_expires:
  "popup (advance 4000 (setPopupWithExpiration p s)) = None
   \<and> now s + 4000 \<notin> set (timers (advance 4000 (setPopupWithExpiration p s)))
   \<and> (timers s = [] \<and> d < 4000 \<longrightarrow>
        popup (advance d (setPopupWithExpiration p s)) = p)
   \<and> popup (advance 4000 (usePopup_setPopup p s)) = None
   \<and> now s + 4000 \<notin> set (timers (advance 4000 (usePopup_setPopup p s)))
   \<and> (timers s = [] \<and> d < 4000 \<longrightarrow>
        popup (advance d (usePopup_setPopup p s)) = p)
   \<and> (popups es \<noteq> [] \<longrightarrow>
        popup (advance 4000 (perform_all es s)) = None)"
proof (intro conjI impI)
  show "popup (advance 4000 (setPopupWithExpiration p s)) = None"
    by (simp add: advance_def timers_setPopupWithExpiration Let_def)
  show "now s + 4000 \<notin> set (timers (advance 4000 (setPopupWithExpiration p s)))"
    by (simp add: advance_def timers_setPopupWithExpiration Let_def)
  show "popup (advance d (setPopupWithExpiration p s)) = p" if "timers s = [] \<and> d < 4000"
    using that by (simp add: advance_def timers_setPopupWithExpiration Let_def)
  show "popup (advance 4000 (usePopup_setPopup p s)) = None"
    by (simp add: advance_def timers_usePopup_setPopup Let_def)
  show "now s + 4000 \<notin> set (timers (advance 4000 (usePopup_setPopup p s)))"
    by (simp add: advance_def timers_usePopup_setPopup Let_def)
  show "popup (advance d (usePopup_setPopup p s)) = p" if "timers s = [] \<and> d < 4000"
    using that by (simp add: advance_def timers_usePopup_setPopup Let_def)
  assume "popups es \<noteq> []"
  then obtain e where "e \<in> set es" and "popup_of e \<noteq> None"
    by (blast dest: popups_nonempty)
  then have "now s + 4000 \<in> set (timers (fold perform es s))"
    by (rule timer_pending)
  then show "popup (advance 4000 (perform_all es s)) = None"
    unfolding perform_all_def by (rule advance_due) (simp add: now_fold_perform)
qed

theorem popup_expires_witness:
  "popup (advance 3999
       (setPopupWithExpiration
          (Some \<lparr>message = ''Failed to create connector - 404'', ptype = PError\<rparr>)
          \<lparr>now = 0, popup = None, timers = []\<rparr>))
     = Some \<lparr>message = ''Failed to create connector - 404'', ptype = PError\<rparr>
   \<and> popup (advance 4000
       (setPopupWithExpiration
          (Some \<lparr>message = ''Failed to create connector - 404'', ptype = PError\<rparr>)
          \<lparr>now = 0, popup = None, timers = []\<rparr>))
     = None
   \<and> fst (add_onClick None not_found 3 created) =
       [Fetch ''POST'' ''/api/admin/connector'',
        SetPopupWithExpiration
          \<lparr>message = ''Failed to create connector - 404'', ptype = PError\<rparr>]
   \<and> popup (perform_all (fst (add_onClick None not_found 3 created))
         \<lparr>now = 0, popup = None, timers = []\<rparr>)
     = Some \<lparr>message = ''Failed to create connector - 404'', ptype = PError\<rparr>
   \<and> popup (advance 4000 (perform_all (fst (add_onClick None not_found 3 created))
         \<lparr>now = 0, popup = None, timers = []\<rparr>))
     = None
   \<and> fst (notion_delete_onClick notion_cred_7 [unlinked_notion_connector]) =
       [SetPopup \<lparr>message = guard_message, ptype = PError\<rparr>]
   \<and> popup (perform_all (fst (notion_delete_onClick notion_cred_7 [unlinked_notion_connector]))
         \<lparr>now = 0, popup = None, timers = []\<rparr>)
     = Some \<lparr>message = guard_message, ptype = PError\<rparr>
   \<and> popup (advance 3999
         (perform_all (fst (notion_delete_onClick notion_cred_7 [unlinked_notion_connector]))
            \<lparr>now = 0, popup = None, timers = []\<rparr>))
     = Some \<lparr>message = guard_message, ptype = PError\<rparr>
   \<and> popup (advance 4000
         (perform_all (fst (notion_delete_onClick notion_cred_7 [unlinked_notion_connector]))
            \<lparr>now = 0, popup = None, timers = []\<rparr>))
     = None
   \<and> popup (perform_all (fst (bot_delete_onClick (cfg 5 ''general'') server_error))
         \<lparr>now = 0, popup = None, timers = []\<rparr>)
     = Some \<lparr>message = ''Failed to delete Slack bot config - Internal Server Error'',
             ptype = PError\<rparr>
   \<and> popup (advance 4000
         (perform_all (fst (bot_delete_onClick (cfg 5 ''general'') server_error))
            \<lparr>now = 0, popup = None, timers = []\<rparr>))
     = None"
proof -
  let ?m = "\<lparr>message = ''Failed to create connector - 404'', ptype = PError\<rparr>"
  let ?g = "\<lparr>message = guard_message, ptype = PError\<rparr>"
  let ?b = "\<lparr>message = ''Failed to delete Slack bot config - Internal Server Error'',
             ptype = PError\<rparr>"
  let ?s = "\<lparr>now = 0, popup = None, timers = []\<rparr>"
  let ?es = "fst (add_onClick None not_found 3 created)"
  let ?gs = "fst (notion_delete_onClick notion_cred_7 [unlinked_notion_connector])"
  let ?bs = "fst (bot_delete_onClick (cfg 5 ''general'') server_error)"
  have h: "timers ?s = [] \<and> (3999::nat) < 4000" by simp
  from popup_expires [of "Some ?m" ?s 3999] h
  have a: "popup (advance 3999 (setPopupWithExpiration (Some ?m) ?s)) = Some ?m" by blast
  from popup_expires [of "Some ?m" ?s 3999]
  have b: "popup (advance 4000 (setPopupWithExpiration (Some ?m) ?s)) = None" by blast
  have e: "?es = [Fetch ''POST'' ''/api/admin/connector'', SetPopupWithExpiration ?m]"
    by (simp add: add_onClick_def ok_def not_found_def string_of_nat.simps digit_def)
  have c: "popup (perform_all ?es ?s) = Some ?m"
    unfolding e by (simp add: perform_all_def timers_setPopupWithExpiration)
  have "popups ?es \<noteq> []"
    unfolding e by (simp add: popups_def List.map_filter_def)
  with popup_expires [where es = ?es and s = ?s]
  have d: "popup (advance 4000 (perform_all ?es ?s)) = None" by blast
  have g: "?gs = [SetPopup ?g]"
    by (simp add: notion_delete_onClick_def)
  have g1: "perform_all ?gs ?s = usePopup_setPopup (Some ?g) ?s"
    unfolding g by (simp add: perform_all_def)
  have g2: "popup (perform_all ?gs ?s) = Some ?g"
    unfolding g1 by (simp add: timers_usePopup_setPopup)
  from popup_expires [of "Some ?g" ?s 3999] h
  have "popup (advance 3999 (usePopup_setPopup (Some ?g) ?s)) = Some ?g" by blast
  then have g3: "popup (advance 3999 (perform_all ?gs ?s)) = Some ?g"
    by (simp only: g1)
  have "popups ?gs \<noteq> []"
    unfolding g by (simp add: popups_def List.map_filter_def)
  with popup_expires [where es = ?gs and s = ?s]
  have g4: "popup (advance 4000 (perform_all ?gs ?s)) = None" by blast
  have bs: "?bs = [DeleteSlackBotConfig 5, SetPopup ?b, Refresh]"
    by (simp add: bot_delete_onClick_def ok_def server_error_def)
  have b1: "popup (perform_all ?bs ?s) = Some ?b"
    unfolding bs by (simp add: perform_all_def timers_usePopup_setPopup)
  have "popups ?bs \<noteq> []"
    unfolding bs by (simp add: popups_def List.map_filter_def)
  with popup_expires [where es = ?bs and s = ?s]
  have b2: "popup (advance 4000 (perform_all ?bs ?s)) = None" by blast
  from a b e c d g g2 g3 g4 b1 b2 show ?thesis by (intro conjI)
qed

end
